theory Spec2Isabelle
  imports Complex_Main "HOL-Library.Multiset"
begin

section \<open>Strings\<close>

text \<open>
  A JavaScript string is modelled as a \<^typ>\<open>string\<close>, one \<^typ>\<open>char\<close> per UTF-16 code
  unit, for the code units \<open>0 .. 255\<close> (ASCII and Latin-1). \<open>length\<close> is the
  \<open>.length\<close> of the source. Code units above 255 are outside the model.
\<close>

definition charCode :: "char \<Rightarrow> nat" where
  "charCode c = of_char c"

text \<open>The white space and line terminators that \<open>String.prototype.trim\<close> strips
  (TAB, LF, VT, FF, CR, SP, NBSP), among the code units of the model.\<close>

definition isWhiteSpace :: "char \<Rightarrow> bool" where
  "isWhiteSpace c = (charCode c \<in> {9, 10, 11, 12, 13, 32, 160})"

definition trim :: "string \<Rightarrow> string" where
  "trim s = rev (dropWhile isWhiteSpace (rev (dropWhile isWhiteSpace s)))"

text \<open>\<open>toLowerCase\<close>: \<open>A-Z\<close> and the Latin-1 capitals \<open>U+00C0 .. U+00DE\<close> (without the
  multiplication sign \<open>U+00D7\<close>) move up by 32; every other code unit stays.\<close>

definition toLowerCaseChar :: "char \<Rightarrow> char" where
  "toLowerCaseChar c =
     (let n = charCode c
      in if (65 \<le> n \<and> n \<le> 90) \<or> (192 \<le> n \<and> n \<le> 222 \<and> n \<noteq> 215)
         then char_of (n + 32) else c)"

definition toLowerCase :: "string \<Rightarrow> string" where
  "toLowerCase s = map toLowerCaseChar s"

definition startsWith :: "string \<Rightarrow> string \<Rightarrow> bool" where
  "startsWith s p = (take (length p) s = p)"

subsection \<open>Character classes of the regular expressions\<close>

definition isLower :: "char \<Rightarrow> bool" where   \<comment> \<open>\<open>[a-z]\<close>\<close>
  "isLower c = (97 \<le> charCode c \<and> charCode c \<le> 122)"

definition isUpper :: "char \<Rightarrow> bool" where   \<comment> \<open>\<open>[A-Z]\<close>\<close>
  "isUpper c = (65 \<le> charCode c \<and> charCode c \<le> 90)"

definition isDigit :: "char \<Rightarrow> bool" where   \<comment> \<open>\<open>[0-9]\<close>\<close>
  "isDigit c = (48 \<le> charCode c \<and> charCode c \<le> 57)"

definition isDotUnderscore :: "char \<Rightarrow> bool" where   \<comment> \<open>\<open>[._]\<close>\<close>
  "isDotUnderscore c = (c = CHR ''.'' \<or> c = CHR ''_'')"

definition isDotDash :: "char \<Rightarrow> bool" where   \<comment> \<open>\<open>[.-]\<close>\<close>
  "isDotDash c = (c = CHR ''.'' \<or> c = CHR ''-'')"

definition isSeparator :: "char \<Rightarrow> bool" where   \<comment> \<open>\<open>[._-]\<close>\<close>
  "isSeparator c = (c = CHR ''.'' \<or> c = CHR ''_'' \<or> c = CHR ''-'')"

definition isNameChar :: "char \<Rightarrow> bool" where   \<comment> \<open>\<open>[a-z0-9._-]\<close>\<close>
  "isNameChar c = (isLower c \<or> isDigit c \<or> isSeparator c)"

text \<open>With the flag \<open>i\<close> (and without \<open>u\<close>) a code unit matches \<open>[a-z0-9._-]\<close> when it or
  its other case is in the class: the class becomes \<open>[a-zA-Z0-9._-]\<close>.\<close>

definition isNameCharI :: "char \<Rightarrow> bool" where
  "isNameCharI c = (isNameChar c \<or> isUpper c)"

subsection \<open>The regular expressions, by shape\<close>

text \<open>\<open>/^[C]+$/.test(s)\<close>: \<open>$\<close> without the flag \<open>m\<close> matches at the end of input only.\<close>

definition testWhole :: "(char \<Rightarrow> bool) \<Rightarrow> string \<Rightarrow> bool" where
  "testWhole C s = (s \<noteq> [] \<and> list_all C s)"

text \<open>\<open>/^[C]/.test(s)\<close>\<close>

definition testStart :: "(char \<Rightarrow> bool) \<Rightarrow> string \<Rightarrow> bool" where
  "testStart C s = (case s of [] \<Rightarrow> False | c # _ \<Rightarrow> C c)"

text \<open>\<open>/[C]$/.test(s)\<close>\<close>

definition testEnd :: "(char \<Rightarrow> bool) \<Rightarrow> string \<Rightarrow> bool" where
  "testEnd C s = (s \<noteq> [] \<and> C (last s))"

text \<open>\<open>/[C]/.test(s)\<close>\<close>

definition testAny :: "(char \<Rightarrow> bool) \<Rightarrow> string \<Rightarrow> bool" where
  "testAny C s = list_ex C s"

text \<open>\<open>/[C]{2,}/.test(s)\<close>: two neighbours of the class somewhere.\<close>

fun testRun2 :: "(char \<Rightarrow> bool) \<Rightarrow> string \<Rightarrow> bool" where
  "testRun2 C (a # b # cs) = ((C a \<and> C b) \<or> testRun2 C (b # cs))"
| "testRun2 C _ = False"

text \<open>\<open>s.match(/^@([a-z0-9._-]+)\/([a-z0-9._-]+)$/i)\<close> is not null. The class has no
  \<open>/\<close>, so the first group is the longest run of the class after the \<open>@\<close>.\<close>

definition scopeMatch :: "string \<Rightarrow> bool" where
  "scopeMatch s =
     (case s of
        [] \<Rightarrow> False
      | c # rest \<Rightarrow>
          c = CHR ''@'' \<and> takeWhile isNameCharI rest \<noteq> [] \<and>
          (case dropWhile isNameCharI rest of
             [] \<Rightarrow> False
           | d # pkg \<Rightarrow> d = CHR ''/'' \<and> testWhole isNameCharI pkg))"

text \<open>\<open>s.replace(/[C]/g, r)\<close>: every code unit of the class becomes \<open>r\<close>.\<close>

definition replaceEach :: "(char \<Rightarrow> bool) \<Rightarrow> string \<Rightarrow> string \<Rightarrow> string" where
  "replaceEach C r s = concat (map (\<lambda>c. if C c then r else [c]) s)"

text \<open>\<open>s.replace(/^[C]+/, '')\<close>: the match can only start at index 0 and is greedy.\<close>

definition removeLeadingRun :: "(char \<Rightarrow> bool) \<Rightarrow> string \<Rightarrow> string" where
  "removeLeadingRun C s = dropWhile C s"

text \<open>\<open>s.replace(/[C]+$/, '')\<close>: the matcher tries the start indices from the left; the
  first one from which the rest of the string is a non-empty run of the class matches,
  and the match is removed.\<close>

fun removeTrailingRun :: "(char \<Rightarrow> bool) \<Rightarrow> string \<Rightarrow> string" where
  "removeTrailingRun C [] = []"
| "removeTrailingRun C (c # cs) =
     (if list_all C (c # cs) then [] else c # removeTrailingRun C cs)"

text \<open>\<open>s.replace(/[C]+/g, r)\<close>: scanning from the left, a code unit of the class starts
  a match that takes the whole run (the quantifier is greedy); the run becomes \<open>r\<close> and
  the scan goes on behind it.\<close>

function replaceRuns :: "(char \<Rightarrow> bool) \<Rightarrow> string \<Rightarrow> string \<Rightarrow> string" where
  "replaceRuns C r [] = []"
| "replaceRuns C r (c # cs) =
     (if C c then r @ replaceRuns C r (dropWhile C cs) else c # replaceRuns C r cs)"
  by pat_completeness auto
termination
  by (relation "measure (\<lambda>(C, r, s). length s)")
     (auto simp: length_dropWhile_le less_Suc_eq_le)

section \<open>The name validator (src/utils/validator.ts)\<close>

text \<open>
  A \<open>ValidationError\<close> of the source is an object \<open>{type, message}\<close>. Each constructor
  below stands for the object whose \<open>type\<close> is the constructor's name; its message is a
  fixed text, except for \<open>RESERVED_NAME\<close>, whose message quotes the trimmed name.
\<close>

datatype ValidationError =
    EMPTY_NAME
  | NAME_TOO_LONG
  | NAME_TOO_SHORT
  | INVALID_CHARACTERS
  | INVALID_START
  | INVALID_END
  | RESERVED_NAME string
  | INVALID_SCOPE_FORMAT
  | CONSECUTIVE_SEPARATORS

datatype ValidationWarning = UPPERCASE_WARNING

record ValidationResult =
  valid :: bool
  errors :: "ValidationError list"
  warnings :: "ValidationWarning list"

definition reservedNames :: "string list" where
  "reservedNames =
     [''node_modules'', ''favicon.ico'', ''package.json'', ''package-lock.json'',
      ''yarn.lock'', ''pnpm-lock.yaml'', ''.git'', ''.gitignore'', ''.env'',
      ''con'', ''prn'', ''aux'', ''nul'',
      ''com1'', ''com2'', ''com3'', ''com4'', ''com5'', ''com6'', ''com7'', ''com8'', ''com9'',
      ''lpt1'', ''lpt2'', ''lpt3'', ''lpt4'', ''lpt5'', ''lpt6'', ''lpt7'', ''lpt8'', ''lpt9'']"

text \<open>\<open>errors.push(e)\<close> under a condition: the list grows by \<open>e\<close> or stays.\<close>

definition pushIf :: "bool \<Rightarrow> 'a \<Rightarrow> 'a list" where
  "pushIf b e = (if b then [e] else [])"

definition validateProjectName :: "string \<Rightarrow> ValidationResult" where
  "validateProjectName name =
     (if name = [] \<or> length (trim name) = 0
      then \<lparr>valid = False, errors = [EMPTY_NAME], warnings = []\<rparr>
      else
        let trimmedName = trim name;
            errs =
              pushIf (length trimmedName > 214) NAME_TOO_LONG @
              pushIf (length trimmedName < 1) NAME_TOO_SHORT @
              pushIf (\<not> testWhole isNameCharI trimmedName) INVALID_CHARACTERS @
              pushIf (testStart isDotUnderscore trimmedName) INVALID_START @
              pushIf (testEnd isDotDash trimmedName) INVALID_END @
              pushIf (toLowerCase trimmedName \<in> set reservedNames) (RESERVED_NAME trimmedName) @
              pushIf (startsWith trimmedName ''@'' \<and> \<not> scopeMatch trimmedName)
                INVALID_SCOPE_FORMAT @
              pushIf (testRun2 isDotDash trimmedName) CONSECUTIVE_SEPARATORS;
            warns = pushIf (testAny isUpper trimmedName) UPPERCASE_WARNING
        in \<lparr>valid = (length errs = 0), errors = errs, warnings = warns\<rparr>)"

definition suggestValidName :: "string \<Rightarrow> string" where
  "suggestValidName invalidName =
     (let suggestion = toLowerCase (trim invalidName);
          suggestion = replaceEach (\<lambda>c. \<not> isNameChar c) ''-'' suggestion;
          suggestion = removeLeadingRun isDotUnderscore suggestion;
          suggestion = removeTrailingRun isDotDash suggestion;
          suggestion = replaceRuns isSeparator ''-'' suggestion;
          suggestion = (if suggestion = [] then ''my-koa-app'' else suggestion);
          suggestion = (if testStart isDigit suggestion then ''app-'' @ suggestion
                        else suggestion)
      in suggestion)"


section \<open>Configuration data (src/types, src/prompts, src/config/manager.ts)\<close>

text \<open>
  The interfaces of the source become records; an optional property (\<open>p?: T\<close>) is a
  field of type \<open>T option\<close>, with \<open>None\<close> for a property that is absent or \<open>undefined\<close>.
  The string-literal unions (\<open>TemplateType\<close>, the package manager, the database, cache and
  authentication types) are erased when the program runs and the code validates them
  itself, so they are strings here.
\<close>

text \<open>
  A \<open>number\<close> of the source is a double: a finite value, \<open>NaN\<close>, or one of the two
  infinities. The finite values are modelled as rationals, which hold every finite double;
  rounding plays no part in the code, which only compares numbers and tests them for
  truthiness.
\<close>

datatype number = Num rat | NaN | Infinity | NegInfinity

text \<open>The comparison \<open>a < b\<close> of two numbers: false as soon as one of them is \<open>NaN\<close>.
  \<open>a > b\<close> is \<open>jsLess b a\<close>.\<close>

fun jsLess :: "number \<Rightarrow> number \<Rightarrow> bool" where
  "jsLess NaN b = False"
| "jsLess a NaN = False"
| "jsLess (Num a) (Num b) = (a < b)"
| "jsLess (Num a) Infinity = True"
| "jsLess (Num a) NegInfinity = False"
| "jsLess Infinity b = False"
| "jsLess NegInfinity NegInfinity = False"
| "jsLess NegInfinity b = True"

datatype FeatureKey = logging | cors | helmet | rateLimit | swagger | redis

text \<open>An object whose properties are feature flags: the \<open>FeatureSet\<close> of the source when
  all six sub-keys are defined, a \<open>Partial<FeatureSet>\<close> otherwise. The object spread
  \<open>{...a, ...b}\<close> of two such objects is \<open>a ++ b\<close>.\<close>

type_synonym FeatureSet = "FeatureKey \<rightharpoonup> bool"

record DatabaseConfig =
  db_type :: string
  db_host :: string
  db_port :: number
  db_database :: string
  db_username :: "string option"
  db_password :: "string option"

record CacheConfig =
  cache_type :: string
  cache_host :: string
  cache_port :: number
  cache_password :: "string option"
  cache_database :: "number option"

record AuthConfig =
  auth_type :: string
  auth_secret :: "string option"
  auth_expiresIn :: "string option"

record ProjectConfiguration =
  name :: string
  template :: string
  features :: FeatureSet
  database :: "DatabaseConfig option"
  cache :: "CacheConfig option"
  authentication :: "AuthConfig option"
  packageManager :: string
  typescript :: bool

text \<open>\<open>Partial<ProjectConfiguration>\<close>: the same properties, each optional.\<close>

record PartialProjectConfiguration =
  p_name :: "string option"
  p_template :: "string option"
  p_features :: "FeatureSet option"
  p_database :: "DatabaseConfig option"
  p_cache :: "CacheConfig option"
  p_authentication :: "AuthConfig option"
  p_packageManager :: "string option"
  p_typescript :: "bool option"

record ConfigurationPriority =
  commandLine :: PartialProjectConfiguration
  configFile :: PartialProjectConfiguration
  interactive :: PartialProjectConfiguration

text \<open>The three nested objects of \<open>ConfigFileFormat\<close>, every property optional.\<close>

record ConfigFileDatabase =
  cfd_type :: "string option"
  cfd_host :: "string option"
  cfd_port :: "number option"
  cfd_database :: "string option"

record ConfigFileCache =
  cfc_type :: "string option"
  cfc_host :: "string option"
  cfc_port :: "number option"
  cfc_database :: "number option"

record ConfigFileAuthentication =
  cfa_type :: "string option"
  cfa_expiresIn :: "string option"

record ConfigFileFormat =
  cf_template :: "string option"
  cf_typescript :: "bool option"
  cf_packageManager :: "string option"
  cf_features :: "FeatureSet option"
  cf_database :: "ConfigFileDatabase option"
  cf_cache :: "ConfigFileCache option"
  cf_authentication :: "ConfigFileAuthentication option"
  cf_installDependencies :: "bool option"
  cf_initGit :: "bool option"

record CommandLineOptions =
  cl_template :: "string option"
  cl_config :: "string option"
  cl_skipInstall :: "bool option"
  cl_packageManager :: "string option"
  cl_typescript :: "bool option"
  cl_git :: "bool option"
  cl_force :: "bool option"

record PromptAnswers =
  pa_template :: string
  pa_features :: FeatureSet
  pa_database :: "DatabaseConfig option"
  pa_cache :: "CacheConfig option"
  pa_authentication :: "AuthConfig option"
  pa_typescript :: bool
  pa_packageManager :: string
  pa_installDependencies :: bool
  pa_initGit :: bool

subsection \<open>Truthiness and defaults\<close>

text \<open>\<open>if (v)\<close> on a \<open>string | undefined\<close>: \<open>undefined\<close> and the empty string are falsy.\<close>

definition truthyString :: "string option \<Rightarrow> bool" where
  "truthyString v = (case v of None \<Rightarrow> False | Some s \<Rightarrow> s \<noteq> [])"

text \<open>\<open>v || d\<close> on a string and on a number: \<open>0\<close> and \<open>NaN\<close> are the falsy numbers.\<close>

definition orString :: "string option \<Rightarrow> string \<Rightarrow> string" where
  "orString v d = (case v of None \<Rightarrow> d | Some s \<Rightarrow> if s = [] then d else s)"

definition orNumber :: "number option \<Rightarrow> number \<Rightarrow> number" where
  "orNumber v d =
     (case v of None \<Rightarrow> d | Some n \<Rightarrow> if n = Num 0 \<or> n = NaN then d else n)"

text \<open>The literal \<open>{logging: true, cors: true, helmet: true, rateLimit: false,
  swagger: false, redis: false}\<close>, written out in \<open>mergeConfigurations\<close> and in
  \<open>convertConfigFileFormat\<close>.\<close>

definition defaultFeatures :: FeatureSet where
  "defaultFeatures =
     [logging \<mapsto> True, cors \<mapsto> True, helmet \<mapsto> True,
      rateLimit \<mapsto> False, swagger \<mapsto> False, redis \<mapsto> False]"

text \<open>The empty object \<open>{}\<close> as a \<open>Partial<ProjectConfiguration>\<close>.\<close>

definition emptyConfig :: PartialProjectConfiguration where
  "emptyConfig =
     \<lparr>p_name = None, p_template = None, p_features = None, p_database = None,
      p_cache = None, p_authentication = None, p_packageManager = None,
      p_typescript = None\<rparr>"

subsection \<open>Normalising the three sources\<close>

definition convertConfigFileFormat :: "ConfigFileFormat \<Rightarrow> PartialProjectConfiguration" where
  "convertConfigFileFormat configData =
     \<lparr>p_name = None,
      p_template =
        (if truthyString (cf_template configData) then cf_template configData else None),
      p_features =
        (case cf_features configData of
           None \<Rightarrow> None
         | Some f \<Rightarrow> Some (defaultFeatures ++ f)),
      p_database =
        (case cf_database configData of
           None \<Rightarrow> None
         | Some d \<Rightarrow>
             Some \<lparr>db_type = orString (cfd_type d) ''mysql'',
                   db_host = orString (cfd_host d) ''localhost'',
                   db_port = orNumber (cfd_port d) (Num 3306),
                   db_database = orString (cfd_database d) ''myapp'',
                   db_username = None, db_password = None\<rparr>),
      p_cache =
        (case cf_cache configData of
           None \<Rightarrow> None
         | Some c \<Rightarrow>
             Some \<lparr>cache_type = ''redis'',
                   cache_host = orString (cfc_host c) ''localhost'',
                   cache_port = orNumber (cfc_port c) (Num 6379),
                   cache_password = None,
                   cache_database = Some (orNumber (cfc_database c) (Num 0))\<rparr>),
      p_authentication =
        (case cf_authentication configData of
           None \<Rightarrow> None
         | Some a \<Rightarrow>
             Some \<lparr>auth_type = orString (cfa_type a) ''jwt'',
                   auth_secret = None,
                   auth_expiresIn = Some (orString (cfa_expiresIn a) ''7d'')\<rparr>),
      p_packageManager =
        (if truthyString (cf_packageManager configData)
         then cf_packageManager configData else None),
      p_typescript = cf_typescript configData\<rparr>"

definition convertCommandLineOptions :: "CommandLineOptions \<Rightarrow> PartialProjectConfiguration" where
  "convertCommandLineOptions options =
     emptyConfig
       \<lparr>p_template :=
          (if truthyString (cl_template options) then cl_template options else None),
        p_typescript := cl_typescript options,
        p_packageManager :=
          (if truthyString (cl_packageManager options)
           then cl_packageManager options else None)\<rparr>"

definition convertInteractiveAnswers :: "PromptAnswers \<Rightarrow> PartialProjectConfiguration" where
  "convertInteractiveAnswers answers =
     \<lparr>p_name = None,
      p_template = Some (pa_template answers),
      p_features = Some (pa_features answers),
      p_database = pa_database answers,
      p_cache = pa_cache answers,
      p_authentication = pa_authentication answers,
      p_packageManager = Some (pa_packageManager answers),
      p_typescript = Some (pa_typescript answers)\<rparr>"

subsection \<open>Loading the configuration file\<close>

text \<open>
  The file system and the two parsers are outside the repository. They are parameters:
  a call either returns or throws, and what is thrown is an \<open>Error\<close> with its message or
  some other value. A parser that returns a value \<open>convertConfigFileFormat\<close> cannot read
  (\<open>null\<close>, \<open>undefined\<close>) makes the conversion throw a \<open>TypeError\<close> inside the same
  \<open>try\<close> block; that outcome is part of the parser's \<open>Inl\<close> here.
\<close>

datatype Thrown = ErrorObject string | NonError

record Env =
  pathExists :: "string \<Rightarrow> bool"
  readFile :: "string \<Rightarrow> Thrown + string"
  extname :: "string \<Rightarrow> string"
  JSON_parse :: "string \<Rightarrow> Thrown + ConfigFileFormat"
  yaml_load :: "string \<Rightarrow> Thrown + ConfigFileFormat"

text \<open>The error \<open>loadConfigFile\<close> throws: its message is the fixed prefix (configuration
  file parsing failed) followed by the message of the cause, or by a fixed text when the
  cause is not an \<open>Error\<close>.\<close>

datatype Cause = FileNotFound string | UnsupportedFormat string | Underlying string

datatype ConfigParseError = ConfigParseFailed Cause | ConfigParseFailedUnknown

definition rethrow :: "Thrown \<Rightarrow> ConfigParseError" where
  "rethrow t = (case t of ErrorObject m \<Rightarrow> ConfigParseFailed (Underlying m)
                        | NonError \<Rightarrow> ConfigParseFailedUnknown)"

definition loadConfigFile :: "Env \<Rightarrow> string \<Rightarrow> ConfigParseError + PartialProjectConfiguration" where
  "loadConfigFile env configPath =
     (if \<not> pathExists env configPath
      then Inl (ConfigParseFailed (FileNotFound configPath))
      else
        case readFile env configPath of
          Inl t \<Rightarrow> Inl (rethrow t)
        | Inr fileContent \<Rightarrow>
            let ext = toLowerCase (extname env configPath)
            in if ext = ''.json''
               then (case JSON_parse env fileContent of
                       Inl t \<Rightarrow> Inl (rethrow t)
                     | Inr configData \<Rightarrow> Inr (convertConfigFileFormat configData))
               else if ext = ''.yaml'' \<or> ext = ''.yml''
               then (case yaml_load env fileContent of
                       Inl t \<Rightarrow> Inl (rethrow t)
                     | Inr configData \<Rightarrow> Inr (convertConfigFileFormat configData))
               else Inl (ConfigParseFailed (UnsupportedFormat ext)))"

subsection \<open>The priority merge\<close>

text \<open>\<open>{...target.features, ...sourceValue}\<close>; spreading \<open>undefined\<close> adds nothing.\<close>

definition spreadFeatures :: "FeatureSet option \<Rightarrow> FeatureSet \<Rightarrow> FeatureSet" where
  "spreadFeatures t s = (case t of None \<Rightarrow> Map.empty | Some f \<Rightarrow> f) ++ s"

text \<open>One optional sub-key of a spread: the source's value when it defines one, the
  target's otherwise.\<close>

definition spreadKey :: "'a option \<Rightarrow> 'a option \<Rightarrow> 'a option" where
  "spreadKey t s = (case s of None \<Rightarrow> t | Some v \<Rightarrow> Some v)"

definition spreadDatabase :: "DatabaseConfig option \<Rightarrow> DatabaseConfig \<Rightarrow> DatabaseConfig" where
  "spreadDatabase t s =
     (case t of
        None \<Rightarrow> s
      | Some d \<Rightarrow>
          \<lparr>db_type = db_type s, db_host = db_host s, db_port = db_port s,
           db_database = db_database s,
           db_username = spreadKey (db_username d) (db_username s),
           db_password = spreadKey (db_password d) (db_password s)\<rparr>)"

definition spreadCache :: "CacheConfig option \<Rightarrow> CacheConfig \<Rightarrow> CacheConfig" where
  "spreadCache t s =
     (case t of
        None \<Rightarrow> s
      | Some c \<Rightarrow>
          \<lparr>cache_type = cache_type s, cache_host = cache_host s, cache_port = cache_port s,
           cache_password = spreadKey (cache_password c) (cache_password s),
           cache_database = spreadKey (cache_database c) (cache_database s)\<rparr>)"

definition spreadAuth :: "AuthConfig option \<Rightarrow> AuthConfig \<Rightarrow> AuthConfig" where
  "spreadAuth t s =
     (case t of
        None \<Rightarrow> s
      | Some a \<Rightarrow>
          \<lparr>auth_type = auth_type s,
           auth_secret = spreadKey (auth_secret a) (auth_secret s),
           auth_expiresIn = spreadKey (auth_expiresIn a) (auth_expiresIn s)\<rparr>)"

datatype ConfigKey =
    Key_name | Key_template | Key_features | Key_database | Key_cache
  | Key_authentication | Key_packageManager | Key_typescript

text \<open>The body of the \<open>for (const key in source)\<close> loop of \<open>mergeConfig\<close>, for one key:
  nothing happens when the source's value is \<open>undefined\<close>; the four nested objects are
  spread over the target's; any other value overwrites the target's.\<close>

fun mergeKey :: "PartialProjectConfiguration \<Rightarrow> ConfigKey \<Rightarrow>
    PartialProjectConfiguration \<Rightarrow> PartialProjectConfiguration" where
  "mergeKey source Key_features target =
     (case p_features source of
        None \<Rightarrow> target
      | Some sourceValue \<Rightarrow>
          target\<lparr>p_features := Some (spreadFeatures (p_features target) sourceValue)\<rparr>)"
| "mergeKey source Key_database target =
     (case p_database source of
        None \<Rightarrow> target
      | Some sourceValue \<Rightarrow>
          target\<lparr>p_database := Some (spreadDatabase (p_database target) sourceValue)\<rparr>)"
| "mergeKey source Key_cache target =
     (case p_cache source of
        None \<Rightarrow> target
      | Some sourceValue \<Rightarrow>
          target\<lparr>p_cache := Some (spreadCache (p_cache target) sourceValue)\<rparr>)"
| "mergeKey source Key_authentication target =
     (case p_authentication source of
        None \<Rightarrow> target
      | Some sourceValue \<Rightarrow>
          target\<lparr>p_authentication := Some (spreadAuth (p_authentication target) sourceValue)\<rparr>)"
| "mergeKey source Key_name target =
     (case p_name source of
        None \<Rightarrow> target
      | Some sourceValue \<Rightarrow> target\<lparr>p_name := Some sourceValue\<rparr>)"
| "mergeKey source Key_template target =
     (case p_template source of
        None \<Rightarrow> target
      | Some sourceValue \<Rightarrow> target\<lparr>p_template := Some sourceValue\<rparr>)"
| "mergeKey source Key_packageManager target =
     (case p_packageManager source of
        None \<Rightarrow> target
      | Some sourceValue \<Rightarrow> target\<lparr>p_packageManager := Some sourceValue\<rparr>)"
| "mergeKey source Key_typescript target =
     (case p_typescript source of
        None \<Rightarrow> target
      | Some sourceValue \<Rightarrow> target\<lparr>p_typescript := Some sourceValue\<rparr>)"

text \<open>The loop visits the keys of the source in the order in which they were added to
  it; \<open>mergeConfigKeys\<close> runs the loop for a given order, \<open>mergeConfig\<close> for the order of
  the interface. The function of the source updates \<open>target\<close> in place and returns
  nothing; here the updated target is the result.\<close>

definition mergeConfigKeys :: "ConfigKey list \<Rightarrow> PartialProjectConfiguration \<Rightarrow>
    PartialProjectConfiguration \<Rightarrow> PartialProjectConfiguration" where
  "mergeConfigKeys keys target source = fold (mergeKey source) keys target"

definition configKeys :: "ConfigKey list" where
  "configKeys =
     [Key_name, Key_template, Key_features, Key_database, Key_cache,
      Key_authentication, Key_packageManager, Key_typescript]"

definition mergeConfig :: "PartialProjectConfiguration \<Rightarrow> PartialProjectConfiguration \<Rightarrow>
    PartialProjectConfiguration" where
  "mergeConfig target source = mergeConfigKeys configKeys target source"

definition applyConfigurationPriority :: "ConfigurationPriority \<Rightarrow> PartialProjectConfiguration" where
  "applyConfigurationPriority configs =
     (let result = emptyConfig;
          result = mergeConfig result (interactive configs);
          result = mergeConfig result (configFile configs);
          result = mergeConfig result (commandLine configs)
      in result)"

subsection \<open>mergeConfigurations\<close>

text \<open>Steps 1 to 3 of \<open>mergeConfigurations\<close> (lines 51 to 63): the configuration file is
  loaded when \<open>commandLineOptions.config\<close> is truthy, and the three sources are
  normalised. A failing load ends the call with its error.\<close>

definition normalizeSources :: "Env \<Rightarrow> CommandLineOptions \<Rightarrow> PromptAnswers option \<Rightarrow>
    ConfigParseError + ConfigurationPriority" where
  "normalizeSources env commandLineOptions interactiveAnswers =
     (case (case cl_config commandLineOptions of
              None \<Rightarrow> Inr emptyConfig
            | Some configPath \<Rightarrow>
                if configPath = [] then Inr emptyConfig
                else loadConfigFile env configPath) of
        Inl e \<Rightarrow> Inl e
      | Inr configFileOptions \<Rightarrow>
          Inr \<lparr>commandLine = convertCommandLineOptions commandLineOptions,
               configFile = configFileOptions,
               interactive =
                 (case interactiveAnswers of
                    Some answers \<Rightarrow> convertInteractiveAnswers answers
                  | None \<Rightarrow> emptyConfig)\<rparr>)"

text \<open>Step 5 (lines 73 to 102): the object \<open>finalConfig\<close> built from the project name
  and the merged configuration.\<close>

definition finalConfig :: "string \<Rightarrow> PartialProjectConfiguration \<Rightarrow> ProjectConfiguration" where
  "finalConfig projectName mergedConfig =
     \<lparr>name = projectName,
      template = orString (p_template mergedConfig) ''basic'',
      features =
        defaultFeatures ++
          (case p_features mergedConfig of None \<Rightarrow> Map.empty | Some f \<Rightarrow> f),
      database = p_database mergedConfig,
      cache = p_cache mergedConfig,
      authentication = p_authentication mergedConfig,
      packageManager = orString (p_packageManager mergedConfig) ''pnpm'',
      typescript =
        (case p_typescript mergedConfig of Some b \<Rightarrow> b | None \<Rightarrow> True)\<rparr>"

definition mergeConfigurations :: "Env \<Rightarrow> string \<Rightarrow> CommandLineOptions \<Rightarrow>
    PromptAnswers option \<Rightarrow> ConfigParseError + ProjectConfiguration" where
  "mergeConfigurations env projectName commandLineOptions interactiveAnswers =
     (case normalizeSources env commandLineOptions interactiveAnswers of
        Inl e \<Rightarrow> Inl e
      | Inr configs \<Rightarrow>
          Inr (finalConfig projectName (applyConfigurationPriority configs)))"

subsection \<open>validateConfiguration\<close>

text \<open>The errors are strings in the source, each a fixed text around the offending
  value and the valid options. A constructor stands for the text, its argument for the
  value the text quotes.\<close>

datatype ConfigurationError =
    EmptyProjectName
  | InvalidTemplate string
  | InvalidPackageManager string
  | InvalidDatabaseType string
  | InvalidDatabasePort number
  | InvalidCacheType string
  | InvalidCachePort number
  | InvalidAuthType string

record ConfigurationValidation =
  cv_valid :: bool
  cv_errors :: "ConfigurationError list"

definition validTemplates :: "string list" where
  "validTemplates = [''basic'', ''api'', ''fullstack'']"

definition validPackageManagers :: "string list" where
  "validPackageManagers = [''npm'', ''yarn'', ''pnpm'']"

definition validDatabaseTypes :: "string list" where
  "validDatabaseTypes = [''mysql'', ''postgresql'', ''mongodb'']"

definition validAuthTypes :: "string list" where
  "validAuthTypes = [''jwt'', ''session'']"

definition validateConfiguration :: "ProjectConfiguration \<Rightarrow> ConfigurationValidation" where
  "validateConfiguration config =
     (let errs =
            pushIf (name config = [] \<or> trim (name config) = []) EmptyProjectName @
            pushIf (template config \<notin> set validTemplates)
              (InvalidTemplate (template config)) @
            pushIf (packageManager config \<notin> set validPackageManagers)
              (InvalidPackageManager (packageManager config)) @
            (case database config of
               None \<Rightarrow> []
             | Some db \<Rightarrow>
                 pushIf (db_type db \<notin> set validDatabaseTypes)
                   (InvalidDatabaseType (db_type db)) @
                 pushIf (jsLess (db_port db) (Num 1) \<or> jsLess (Num 65535) (db_port db))
                   (InvalidDatabasePort (db_port db))) @
            (case cache config of
               None \<Rightarrow> []
             | Some c \<Rightarrow>
                 pushIf (cache_type c \<noteq> ''redis'') (InvalidCacheType (cache_type c)) @
                 pushIf (jsLess (cache_port c) (Num 1) \<or> jsLess (Num 65535) (cache_port c))
                   (InvalidCachePort (cache_port c))) @
            (case authentication config of
               None \<Rightarrow> []
             | Some a \<Rightarrow>
                 pushIf (auth_type a \<notin> set validAuthTypes) (InvalidAuthType (auth_type a)))
      in \<lparr>cv_valid = (length errs = 0), cv_errors = errs\<rparr>)"


section \<open>Definitions that follow the specification's words\<close>

text \<open>Collapsing runs of separators into one dash, read as a scan that remembers
  whether the previous character was a separator.\<close>

fun collapseRuns :: "bool \<Rightarrow> string \<Rightarrow> string" where
  "collapseRuns inRun [] = []"
| "collapseRuns inRun (c # cs) =
     (if isSeparator c
      then (if inRun then collapseRuns True cs else CHR ''-'' # collapseRuns True cs)
      else c # collapseRuns False cs)"

text \<open>The suggestion as the specification lists its steps: lowercase the trimmed input,
  replace the characters outside \<open>[a-z0-9._-]\<close> by a dash, strip leading dots and
  underscores, strip trailing dots and dashes, collapse the runs of separators, fall back
  to the default name, prefix a name that starts with a digit.\<close>

definition suggestValidName_spec :: "string \<Rightarrow> string" where
  "suggestValidName_spec nm =
     (let lowered = map toLowerCaseChar (trim nm);
          replaced = map (\<lambda>c. if isNameChar c then c else CHR ''-'') lowered;
          noLead = dropWhile (\<lambda>c. c \<in> {CHR ''.'', CHR ''_''}) replaced;
          noTrail = rev (dropWhile (\<lambda>c. c \<in> {CHR ''.'', CHR ''-''}) (rev noLead));
          collapsed = collapseRuns False noTrail;
          nonEmpty = (if collapsed = [] then ''my-koa-app'' else collapsed)
      in if isDigit (hd nonEmpty) then ''app-'' @ nonEmpty else nonEmpty)"

text \<open>Resolution by priority: the first defined value of a list of optional values,
  the list running from the highest priority to the lowest.\<close>

definition firstDefined :: "'a option list \<Rightarrow> 'a option" where
  "firstDefined vs = (case filter (\<lambda>v. v \<noteq> None) vs of [] \<Rightarrow> None | v # _ \<Rightarrow> v)"

text \<open>The own keys of a partial configuration: those with a defined value.\<close>

definition hasKey :: "PartialProjectConfiguration \<Rightarrow> ConfigKey \<Rightarrow> bool" where
  "hasKey source key =
     (case key of
        Key_name \<Rightarrow> p_name source \<noteq> None
      | Key_template \<Rightarrow> p_template source \<noteq> None
      | Key_features \<Rightarrow> p_features source \<noteq> None
      | Key_database \<Rightarrow> p_database source \<noteq> None
      | Key_cache \<Rightarrow> p_cache source \<noteq> None
      | Key_authentication \<Rightarrow> p_authentication source \<noteq> None
      | Key_packageManager \<Rightarrow> p_packageManager source \<noteq> None
      | Key_typescript \<Rightarrow> p_typescript source \<noteq> None)"

definition ownKeys :: "PartialProjectConfiguration \<Rightarrow> ConfigKey list" where
  "ownKeys source = filter (hasKey source) configKeys"

text \<open>Two environments give the call the same configuration file: the options name no
  file, or the file they name exists in both or in neither, reads the same, has the same
  extension, and the parsers agree on what was read.\<close>

definition sameConfigFile :: "Env \<Rightarrow> Env \<Rightarrow> CommandLineOptions \<Rightarrow> bool" where
  "sameConfigFile env env' commandLineOptions =
     (case cl_config commandLineOptions of
        None \<Rightarrow> True
      | Some configPath \<Rightarrow>
          configPath = [] \<or>
          (pathExists env' configPath = pathExists env configPath \<and>
           readFile env' configPath = readFile env configPath \<and>
           extname env' configPath = extname env configPath \<and>
           (case readFile env configPath of
              Inl t \<Rightarrow> True
            | Inr fileContent \<Rightarrow>
                JSON_parse env' fileContent = JSON_parse env fileContent \<and>
                yaml_load env' fileContent = yaml_load env fileContent)))"

text \<open>A sub-key of an optional nested object: undefined when the object is absent.
  \<open>required\<close> reads a property that the interface makes mandatory, \<open>feature k\<close> the flag
  \<open>k\<close> of a feature object.\<close>

definition subKey :: "'o option \<Rightarrow> ('o \<Rightarrow> 'v option) \<Rightarrow> 'v option" where
  "subKey obj get = (case obj of None \<Rightarrow> None | Some x \<Rightarrow> get x)"

definition required :: "('o \<Rightarrow> 'v) \<Rightarrow> 'o \<Rightarrow> 'v option" where
  "required get x = Some (get x)"

definition feature :: "FeatureKey \<Rightarrow> FeatureSet \<Rightarrow> bool option" where
  "feature k f = f k"

definition byPriority :: "ConfigurationPriority \<Rightarrow> (PartialProjectConfiguration \<Rightarrow> 'v option) \<Rightarrow> bool" where
  "byPriority configs sel =
     (sel (applyConfigurationPriority configs) =
        firstDefined [sel (commandLine configs), sel (configFile configs),
                      sel (interactive configs)])"

definition exampleNested :: ConfigurationPriority where
  "exampleNested =
     \<lparr>commandLine = emptyConfig\<lparr>p_features := Some [redis \<mapsto> True]\<rparr>,
      configFile = emptyConfig\<lparr>p_features := Some [cors \<mapsto> False, redis \<mapsto> False]\<rparr>,
      interactive = emptyConfig\<rparr>"

section \<open>Sample inputs\<close>

text \<open>A configuration file \<open>koa.config.json\<close> that sets \<open>features.cors\<close> and
  \<open>database.port\<close> only, the options \<open>--config koa.config.json\<close>, and interactive
  answers that switch logging off and choose a PostgreSQL database.\<close>

definition sampleFileDatabase :: ConfigFileDatabase where
  "sampleFileDatabase =
     \<lparr>cfd_type = None, cfd_host = None, cfd_port = Some (Num 5000), cfd_database = None\<rparr>"

definition sampleFile :: ConfigFileFormat where
  "sampleFile =
     \<lparr>cf_template = None, cf_typescript = None, cf_packageManager = None,
      cf_features = Some [cors \<mapsto> False],
      cf_database = Some sampleFileDatabase,
      cf_cache = None, cf_authentication = None,
      cf_installDependencies = None, cf_initGit = None\<rparr>"

definition sampleEnv :: Env where
  "sampleEnv =
     \<lparr>pathExists = (\<lambda>p. p = ''koa.config.json''),
      readFile = (\<lambda>p. if p = ''koa.config.json'' then Inr ''(text of koa.config.json)''
                       else Inl (ErrorObject ''ENOENT'')),
      extname = (\<lambda>p. if p = ''koa.config.json'' then ''.json'' else []),
      JSON_parse = (\<lambda>c. if c = ''(text of koa.config.json)'' then Inr sampleFile
                         else Inl (ErrorObject ''Unexpected token'')),
      yaml_load = (\<lambda>c. Inl (ErrorObject ''bad indentation''))\<rparr>"

definition sampleOptions :: CommandLineOptions where
  "sampleOptions =
     \<lparr>cl_template = None, cl_config = Some ''koa.config.json'', cl_skipInstall = None,
      cl_packageManager = None, cl_typescript = None, cl_git = None, cl_force = None\<rparr>"

definition sampleAnswers :: PromptAnswers where
  "sampleAnswers =
     \<lparr>pa_template = ''api'',
      pa_features = [logging \<mapsto> False, cors \<mapsto> True, helmet \<mapsto> True,
                     rateLimit \<mapsto> False, swagger \<mapsto> False, redis \<mapsto> False],
      pa_database =
        Some \<lparr>db_type = ''postgresql'', db_host = ''db.internal'', db_port = Num 5432,
              db_database = ''shop'', db_username = None, db_password = None\<rparr>,
      pa_cache = None, pa_authentication = None,
      pa_typescript = True, pa_packageManager = ''npm'',
      pa_installDependencies = True, pa_initGit = True\<rparr>"

definition sampleSources :: ConfigurationPriority where
  "sampleSources =
     \<lparr>commandLine = convertCommandLineOptions sampleOptions,
      configFile = convertConfigFileFormat sampleFile,
      interactive = convertInteractiveAnswers sampleAnswers\<rparr>"

text \<open>A second environment with the same \<open>koa.config.json\<close> and another file beside it.\<close>

definition otherEnv :: Env where
  "otherEnv =
     \<lparr>pathExists = (\<lambda>p. p = ''koa.config.json'' \<or> p = ''package.json''),
      readFile = (\<lambda>p. if p = ''koa.config.json'' then Inr ''(text of koa.config.json)''
                       else Inr ''(text of package.json)''),
      extname = (\<lambda>p. ''.json''),
      JSON_parse = (\<lambda>c. if c = ''(text of koa.config.json)'' then Inr sampleFile
                         else Inl NonError),
      yaml_load = (\<lambda>c. Inl (ErrorObject ''bad indentation''))\<rparr>"

text \<open>No option on the command line, and the three empty fragments this gives when there
  are no interactive answers.\<close>

definition bareOptions :: CommandLineOptions where
  "bareOptions =
     \<lparr>cl_template = None, cl_config = None, cl_skipInstall = None, cl_packageManager = None,
      cl_typescript = None, cl_git = None, cl_force = None\<rparr>"

definition bareSources :: ConfigurationPriority where
  "bareSources =
     \<lparr>commandLine = emptyConfig, configFile = emptyConfig, interactive = emptyConfig\<rparr>"

text \<open>Options that set everything the command line can set, with the same \<open>--config\<close>.\<close>

definition busyOptions :: CommandLineOptions where
  "busyOptions =
     \<lparr>cl_template = Some ''fullstack'', cl_config = Some ''koa.config.json'',
      cl_skipInstall = Some True, cl_packageManager = Some ''yarn'',
      cl_typescript = Some False, cl_git = Some False, cl_force = Some True\<rparr>"

text \<open>The four nested fields of a final configuration.\<close>

definition nestedFields :: "ProjectConfiguration \<Rightarrow>
    FeatureSet \<times> DatabaseConfig option \<times> CacheConfig option \<times> AuthConfig option" where
  "nestedFields config =
     (features config, database config, cache config, authentication config)"

text \<open>A configuration with a template that does not exist, a database port out of range
  and a cache that is not Redis.\<close>

definition badConfig :: ProjectConfiguration where
  "badConfig =
     \<lparr>name = ''shop'', template = ''spa'', features = defaultFeatures,
      database =
        Some \<lparr>db_type = ''mysql'', db_host = ''localhost'', db_port = Num 99999,
              db_database = ''shop'', db_username = None, db_password = None\<rparr>,
      cache =
        Some \<lparr>cache_type = ''memcached'', cache_host = ''localhost'', cache_port = Num 6379,
              cache_password = None, cache_database = None\<rparr>,
      authentication = None, packageManager = ''pnpm'', typescript = True\<rparr>"

text \<open>A configuration that is in order but for its two ports, which are \<open>NaN\<close>.\<close>

definition nanPortConfig :: ProjectConfiguration where
  "nanPortConfig =
     \<lparr>name = ''shop'', template = ''api'', features = defaultFeatures,
      database =
        Some \<lparr>db_type = ''mysql'', db_host = ''localhost'', db_port = NaN,
              db_database = ''shop'', db_username = None, db_password = None\<rparr>,
      cache =
        Some \<lparr>cache_type = ''redis'', cache_host = ''localhost'', cache_port = NaN,
              cache_password = None, cache_database = None\<rparr>,
      authentication = None, packageManager = ''pnpm'', typescript = True\<rparr>"

section \<open>Properties of the name validator\<close>

lemma charCode_simps:
  "charCode CHR ''.'' = 46" "charCode CHR ''_'' = 95" "charCode CHR ''-'' = 45"
  "charCode CHR ''@'' = 64"
  by (simp_all add: charCode_def)

lemma isNameChar_not_white: "isNameChar c \<Longrightarrow> \<not> isWhiteSpace c"
  by (auto simp: isNameChar_def isLower_def isDigit_def isSeparator_def isWhiteSpace_def
      charCode_simps)

lemma isNameChar_lower: "isNameChar c \<Longrightarrow> toLowerCaseChar c = c"
  by (auto simp: isNameChar_def isLower_def isDigit_def isSeparator_def toLowerCaseChar_def
      Let_def charCode_simps)

lemma dropWhile_none: "xs = [] \<or> \<not> P (hd xs) \<Longrightarrow> dropWhile P xs = xs"
  by (cases xs) auto

lemma trim_id:
  assumes "s = [] \<or> (\<not> isWhiteSpace (hd s) \<and> \<not> isWhiteSpace (last s))"
  shows "trim s = s"
proof -
  have a: "dropWhile isWhiteSpace s = s"
    using assms by (intro dropWhile_none) auto
  have b: "dropWhile isWhiteSpace (rev s) = rev s"
    using assms by (intro dropWhile_none) (auto simp: hd_rev)
  show ?thesis by (simp add: trim_def a b)
qed

lemma trim_name_chars:
  assumes "list_all isNameChar s"
  shows "trim s = s"
proof (cases s)
  case Nil
  then show ?thesis by (simp add: trim_def)
next
  case (Cons c cs)
  then have "isNameChar (hd s)" "isNameChar (last s)"
    using assms by (auto simp: list_all_iff)
  then show ?thesis
    by (intro trim_id) (auto dest: isNameChar_not_white)
qed

lemma toLowerCase_name_chars: "list_all isNameChar s \<Longrightarrow> toLowerCase s = s"
  by (induction s) (auto simp: toLowerCase_def isNameChar_lower)

lemma at_not_name_char: "\<not> isNameCharI CHR ''@''"
  by (simp add: isNameCharI_def isNameChar_def isLower_def isDigit_def isUpper_def
      isSeparator_def charCode_simps)

lemma startsWith_at: "startsWith s ''@'' = (s \<noteq> [] \<and> hd s = CHR ''@'')"
  by (cases s) (auto simp: startsWith_def)

lemma pushIf_simps [simp]: "pushIf True e = [e]" "pushIf False e = []"
  by (simp_all add: pushIf_def)

lemma valid_iff_no_errors:
  "valid (validateProjectName n) = (errors (validateProjectName n) = [])"
  by (simp add: validateProjectName_def Let_def)

text \<open>
  Claim C6. A name made of \<open>[a-z0-9._-]\<close> only, of 1 to 214 characters, that is not
  reserved, does not start with a dot or an underscore, does not end with a dot or a
  dash and has no two dots or dashes in a row is accepted: the result is valid, with no
  error (and no warning). For every input the result is valid exactly when its error
  list is empty; the warnings play no part in it.
\<close>

theorem validateProjectName_accepts:
  "(testWhole isNameChar nm \<and> 1 \<le> length nm \<and> length nm \<le> 214 \<and>
    nm \<notin> set reservedNames \<and> \<not> testStart isDotUnderscore nm \<and>
    \<not> testEnd isDotDash nm \<and> \<not> testRun2 isDotDash nm
      \<longrightarrow> validateProjectName nm = \<lparr>valid = True, errors = [], warnings = []\<rparr>)
   \<and> (valid (validateProjectName n) = (errors (validateProjectName n) = []))"
proof (intro conjI impI)
  assume h: "testWhole isNameChar nm \<and> 1 \<le> length nm \<and> length nm \<le> 214 \<and>
    nm \<notin> set reservedNames \<and> \<not> testStart isDotUnderscore nm \<and>
    \<not> testEnd isDotDash nm \<and> \<not> testRun2 isDotDash nm"
  then have all: "list_all isNameChar nm" and ne: "nm \<noteq> []"
    by (auto simp: testWhole_def)
  have t: "trim nm = nm" using all by (rule trim_name_chars)
  have l: "toLowerCase nm = nm" using all by (rule toLowerCase_name_chars)
  have w: "testWhole isNameCharI nm"
    using all ne by (auto simp: testWhole_def list_all_iff isNameCharI_def)
  have "isNameCharI (hd nm)"
    using all ne by (cases nm) (auto simp: isNameCharI_def)
  then have s: "\<not> startsWith nm ''@''"
    using at_not_name_char by (auto simp: startsWith_at)
  have u: "\<not> testAny isUpper nm"
    using all by (auto simp: testAny_def list_ex_iff list_all_iff isNameChar_def isLower_def
        isDigit_def isSeparator_def isUpper_def charCode_simps)
  show "validateProjectName nm = \<lparr>valid = True, errors = [], warnings = []\<rparr>"
    using h ne by (simp add: validateProjectName_def t l w s u)
next
  show "valid (validateProjectName n) = (errors (validateProjectName n) = [])"
    by (rule valid_iff_no_errors)
qed

theorem validateProjectName_accepts_witness:
  "testWhole isNameChar ''my-app'' \<and> 1 \<le> length ''my-app'' \<and> length ''my-app'' \<le> 214 \<and>
   ''my-app'' \<notin> set reservedNames \<and> \<not> testStart isDotUnderscore ''my-app'' \<and>
   \<not> testEnd isDotDash ''my-app'' \<and> \<not> testRun2 isDotDash ''my-app'' \<and>
   validateProjectName ''my-app'' = \<lparr>valid = True, errors = [], warnings = []\<rparr> \<and>
   validateProjectName ''My-App'' =
     \<lparr>valid = True, errors = [], warnings = [UPPERCASE_WARNING]\<rparr> \<and>
   valid (validateProjectName ''node_modules'') =
     (errors (validateProjectName ''node_modules'') = [])"
proof -
  have h: "testWhole isNameChar ''my-app'' \<and> 1 \<le> length ''my-app'' \<and>
    length ''my-app'' \<le> 214 \<and> ''my-app'' \<notin> set reservedNames \<and>
    \<not> testStart isDotUnderscore ''my-app'' \<and> \<not> testEnd isDotDash ''my-app'' \<and>
    \<not> testRun2 isDotDash ''my-app''"
    by code_simp
  have w: "validateProjectName ''My-App'' =
     \<lparr>valid = True, errors = [], warnings = [UPPERCASE_WARNING]\<rparr>"
    by code_simp
  from validateProjectName_accepts [of "''my-app''" "''node_modules''"] h w
  show ?thesis by blast
qed

text \<open>
  Claim C9. A name whose trimmed form starts with \<open>@\<close> is never valid: the result holds
  the error \<open>INVALID_CHARACTERS\<close>, also when the trimmed name matches the scope pattern
  \<open>@scope/name\<close>, in which case the error \<open>INVALID_SCOPE_FORMAT\<close> is not added.
\<close>

theorem scoped_names_rejected:
  assumes "startsWith (trim nm) ''@''"
  shows "\<not> valid (validateProjectName nm) \<and>
         INVALID_CHARACTERS \<in> set (errors (validateProjectName nm)) \<and>
         (scopeMatch (trim nm) \<longrightarrow>
            INVALID_SCOPE_FORMAT \<notin> set (errors (validateProjectName nm)))"
proof -
  from assms have ne: "trim nm \<noteq> []" and h: "hd (trim nm) = CHR ''@''"
    by (auto simp: startsWith_at)
  have n: "nm \<noteq> []" using ne by (auto simp: trim_def)
  have "\<not> list_all isNameCharI (trim nm)"
    using ne h at_not_name_char by (cases "trim nm") auto
  then have w: "\<not> testWhole isNameCharI (trim nm)"
    by (simp add: testWhole_def)
  show ?thesis
    using ne n w by (auto simp: validateProjectName_def Let_def pushIf_def)
qed

theorem scoped_names_rejected_witness:
  "startsWith (trim '' @scope/name'') ''@'' \<and> scopeMatch (trim '' @scope/name'') \<and>
   \<not> valid (validateProjectName '' @scope/name'') \<and>
   INVALID_CHARACTERS \<in> set (errors (validateProjectName '' @scope/name'')) \<and>
   INVALID_SCOPE_FORMAT \<notin> set (errors (validateProjectName '' @scope/name''))"
proof -
  have h: "startsWith (trim '' @scope/name'') ''@''" by code_simp
  have m: "scopeMatch (trim '' @scope/name'')" by code_simp
  from scoped_names_rejected [OF h] h m show ?thesis by blast
qed

subsection \<open>The suggested name\<close>

lemma removeTrailingRun_rev: "removeTrailingRun C s = rev (dropWhile C (rev s))"
  by (induction s) (auto simp: dropWhile_append list_all_iff)

lemma replaceRuns_collapse:
  "replaceRuns isSeparator ''-'' (dropWhile isSeparator s) = collapseRuns True s
   \<and> replaceRuns isSeparator ''-'' s = collapseRuns False s"
  by (induction s) auto

lemma replaceEach_map: "replaceEach (\<lambda>c. \<not> C c) [r] s = map (\<lambda>c. if C c then c else r) s"
  by (induction s) (auto simp: replaceEach_def)

lemma testStart_hd: "testStart C s = (s \<noteq> [] \<and> C (hd s))"
  by (cases s) (auto simp: testStart_def)

lemma class_sets:
  "isDotUnderscore = (\<lambda>c. c \<in> {CHR ''.'', CHR ''_''})"
  "isDotDash = (\<lambda>c. c \<in> {CHR ''.'', CHR ''-''})"
  by (auto simp: fun_eq_iff isDotUnderscore_def isDotDash_def)

lemma suggestValidName_refines: "suggestValidName s = suggestValidName_spec s"
  unfolding suggestValidName_def suggestValidName_spec_def Let_def
  by (simp add: toLowerCase_def replaceEach_map removeLeadingRun_def removeTrailingRun_rev
      replaceRuns_collapse testStart_hd class_sets)

text \<open>
  Claim C7. \<open>suggestValidName\<close> is a function of its argument alone, and it computes the
  steps the specification lists, in their order (\<open>suggestValidName_spec\<close>); on
  \<open>My--App!\<close> it returns \<open>my-app\<close>.
\<close>

theorem suggestValidName_steps:
  "suggestValidName nm = suggestValidName_spec nm \<and>
   suggestValidName ''My--App!'' = ''my-app''"
proof
  show "suggestValidName nm = suggestValidName_spec nm"
    by (rule suggestValidName_refines)
  show "suggestValidName ''My--App!'' = ''my-app''"
    by code_simp
qed

theorem suggestValidName_steps_witness:
  "suggestValidName_spec ''  .9Lives_. '' = ''app-9lives-'' \<and>
   suggestValidName ''My--App!'' = ''my-app''"
proof -
  have "suggestValidName ''  .9Lives_. '' = ''app-9lives-''" by code_simp
  with suggestValidName_steps [of "''  .9Lives_. ''"] show ?thesis by simp
qed

section \<open>Properties of the priority merge\<close>

lemma spreadKey_simps [simp]: "spreadKey t None = t" "spreadKey t (Some v) = Some v"
  by (simp_all add: spreadKey_def)

lemma firstDefined_simps [simp]:
  "firstDefined [] = None"
  "firstDefined (None # vs) = firstDefined vs"
  "firstDefined (Some v # vs) = Some v"
  by (simp_all add: firstDefined_def)

lemma spreadKey3: "spreadKey (spreadKey (spreadKey None i) f) c = firstDefined [c, f, i]"
  by (cases c; cases f; cases i) simp_all

lemma emptyConfig_fields [simp]:
  "p_name emptyConfig = None" "p_template emptyConfig = None" "p_features emptyConfig = None"
  "p_database emptyConfig = None" "p_cache emptyConfig = None"
  "p_authentication emptyConfig = None" "p_packageManager emptyConfig = None"
  "p_typescript emptyConfig = None"
  by (simp_all add: emptyConfig_def)

lemma mergeKey_fields:
  "p_name (mergeKey s k t) = (if k = Key_name then spreadKey (p_name t) (p_name s) else p_name t)"
  "p_template (mergeKey s k t) =
     (if k = Key_template then spreadKey (p_template t) (p_template s) else p_template t)"
  "p_packageManager (mergeKey s k t) =
     (if k = Key_packageManager then spreadKey (p_packageManager t) (p_packageManager s)
      else p_packageManager t)"
  "p_typescript (mergeKey s k t) =
     (if k = Key_typescript then spreadKey (p_typescript t) (p_typescript s) else p_typescript t)"
  "p_features (mergeKey s k t) =
     (if k = Key_features
      then (case p_features s of None \<Rightarrow> p_features t
            | Some v \<Rightarrow> Some (spreadFeatures (p_features t) v))
      else p_features t)"
  "p_database (mergeKey s k t) =
     (if k = Key_database
      then (case p_database s of None \<Rightarrow> p_database t
            | Some v \<Rightarrow> Some (spreadDatabase (p_database t) v))
      else p_database t)"
  "p_cache (mergeKey s k t) =
     (if k = Key_cache
      then (case p_cache s of None \<Rightarrow> p_cache t
            | Some v \<Rightarrow> Some (spreadCache (p_cache t) v))
      else p_cache t)"
  "p_authentication (mergeKey s k t) =
     (if k = Key_authentication
      then (case p_authentication s of None \<Rightarrow> p_authentication t
            | Some v \<Rightarrow> Some (spreadAuth (p_authentication t) v))
      else p_authentication t)"
  by (cases k; simp add: spreadKey_def split: option.splits)+

lemma mergeConfig_fields:
  "p_name (mergeConfig t s) = spreadKey (p_name t) (p_name s)"
  "p_template (mergeConfig t s) = spreadKey (p_template t) (p_template s)"
  "p_packageManager (mergeConfig t s) = spreadKey (p_packageManager t) (p_packageManager s)"
  "p_typescript (mergeConfig t s) = spreadKey (p_typescript t) (p_typescript s)"
  "p_features (mergeConfig t s) =
     (case p_features s of None \<Rightarrow> p_features t
      | Some v \<Rightarrow> Some (spreadFeatures (p_features t) v))"
  "p_database (mergeConfig t s) =
     (case p_database s of None \<Rightarrow> p_database t
      | Some v \<Rightarrow> Some (spreadDatabase (p_database t) v))"
  "p_cache (mergeConfig t s) =
     (case p_cache s of None \<Rightarrow> p_cache t
      | Some v \<Rightarrow> Some (spreadCache (p_cache t) v))"
  "p_authentication (mergeConfig t s) =
     (case p_authentication s of None \<Rightarrow> p_authentication t
      | Some v \<Rightarrow> Some (spreadAuth (p_authentication t) v))"
  by (simp_all add: mergeConfig_def mergeConfigKeys_def configKeys_def mergeKey_fields
      del: mergeKey.simps split: option.splits)

text \<open>
  Claim C3. For each of the scalar fields \<open>template\<close>, \<open>typescript\<close> and
  \<open>packageManager\<close>, and for every three sources, the merge takes the value of the
  command line when it defines one, else that of the configuration file when it defines
  one, else that of the interactive answers: a defined value of a higher-priority source
  overwrites, an undefined one never does.
\<close>

theorem scalar_priority:
  "p_template (applyConfigurationPriority configs) =
     firstDefined [p_template (commandLine configs), p_template (configFile configs),
                   p_template (interactive configs)] \<and>
   p_typescript (applyConfigurationPriority configs) =
     firstDefined [p_typescript (commandLine configs), p_typescript (configFile configs),
                   p_typescript (interactive configs)] \<and>
   p_packageManager (applyConfigurationPriority configs) =
     firstDefined [p_packageManager (commandLine configs),
                   p_packageManager (configFile configs),
                   p_packageManager (interactive configs)]"
  by (simp add: applyConfigurationPriority_def Let_def mergeConfig_fields spreadKey3)

theorem scalar_priority_witness:
  "p_template (applyConfigurationPriority
     \<lparr>commandLine = emptyConfig\<lparr>p_template := Some ''api''\<rparr>,
      configFile = emptyConfig\<lparr>p_template := Some ''basic'', p_typescript := Some False\<rparr>,
      interactive = emptyConfig\<lparr>p_template := Some ''basic'', p_typescript := Some True,
        p_packageManager := Some ''npm''\<rparr>\<rparr>) = Some ''api'' \<and>
   p_typescript (applyConfigurationPriority
     \<lparr>commandLine = emptyConfig\<lparr>p_template := Some ''api''\<rparr>,
      configFile = emptyConfig\<lparr>p_template := Some ''basic'', p_typescript := Some False\<rparr>,
      interactive = emptyConfig\<lparr>p_template := Some ''basic'', p_typescript := Some True,
        p_packageManager := Some ''npm''\<rparr>\<rparr>) = Some False \<and>
   p_packageManager (applyConfigurationPriority
     \<lparr>commandLine = emptyConfig\<lparr>p_template := Some ''api''\<rparr>,
      configFile = emptyConfig\<lparr>p_template := Some ''basic'', p_typescript := Some False\<rparr>,
      interactive = emptyConfig\<lparr>p_template := Some ''basic'', p_typescript := Some True,
        p_packageManager := Some ''npm''\<rparr>\<rparr>) = Some ''npm''"
  using scalar_priority [of
     "\<lparr>commandLine = emptyConfig\<lparr>p_template := Some ''api''\<rparr>,
      configFile = emptyConfig\<lparr>p_template := Some ''basic'', p_typescript := Some False\<rparr>,
      interactive = emptyConfig\<lparr>p_template := Some ''basic'', p_typescript := Some True,
        p_packageManager := Some ''npm''\<rparr>\<rparr>"]
  by simp

lemma subKey_simps [simp]: "subKey None g = None" "subKey (Some x) g = g x"
  by (simp_all add: subKey_def)

lemma subKey_mergeConfig:
  "subKey (p_features (mergeConfig t s)) (feature k) =
     spreadKey (subKey (p_features t) (feature k)) (subKey (p_features s) (feature k))"
  "subKey (p_database (mergeConfig t s)) (required db_type) =
     spreadKey (subKey (p_database t) (required db_type)) (subKey (p_database s) (required db_type))"
  "subKey (p_database (mergeConfig t s)) (required db_host) =
     spreadKey (subKey (p_database t) (required db_host)) (subKey (p_database s) (required db_host))"
  "subKey (p_database (mergeConfig t s)) (required db_port) =
     spreadKey (subKey (p_database t) (required db_port)) (subKey (p_database s) (required db_port))"
  "subKey (p_database (mergeConfig t s)) (required db_database) =
     spreadKey (subKey (p_database t) (required db_database))
       (subKey (p_database s) (required db_database))"
  "subKey (p_database (mergeConfig t s)) db_username =
     spreadKey (subKey (p_database t) db_username) (subKey (p_database s) db_username)"
  "subKey (p_database (mergeConfig t s)) db_password =
     spreadKey (subKey (p_database t) db_password) (subKey (p_database s) db_password)"
  "subKey (p_cache (mergeConfig t s)) (required cache_type) =
     spreadKey (subKey (p_cache t) (required cache_type)) (subKey (p_cache s) (required cache_type))"
  "subKey (p_cache (mergeConfig t s)) (required cache_host) =
     spreadKey (subKey (p_cache t) (required cache_host)) (subKey (p_cache s) (required cache_host))"
  "subKey (p_cache (mergeConfig t s)) (required cache_port) =
     spreadKey (subKey (p_cache t) (required cache_port)) (subKey (p_cache s) (required cache_port))"
  "subKey (p_cache (mergeConfig t s)) cache_password =
     spreadKey (subKey (p_cache t) cache_password) (subKey (p_cache s) cache_password)"
  "subKey (p_cache (mergeConfig t s)) cache_database =
     spreadKey (subKey (p_cache t) cache_database) (subKey (p_cache s) cache_database)"
  "subKey (p_authentication (mergeConfig t s)) (required auth_type) =
     spreadKey (subKey (p_authentication t) (required auth_type))
       (subKey (p_authentication s) (required auth_type))"
  "subKey (p_authentication (mergeConfig t s)) auth_secret =
     spreadKey (subKey (p_authentication t) auth_secret) (subKey (p_authentication s) auth_secret)"
  "subKey (p_authentication (mergeConfig t s)) auth_expiresIn =
     spreadKey (subKey (p_authentication t) auth_expiresIn)
       (subKey (p_authentication s) auth_expiresIn)"
  by (simp_all add: mergeConfig_fields required_def feature_def spreadFeatures_def
      spreadDatabase_def spreadCache_def spreadAuth_def spreadKey_def map_add_def
      split: option.splits)

lemma byPriorityI:
  assumes "\<And>t s. sel (mergeConfig t s) = spreadKey (sel t) (sel s)" and "sel emptyConfig = None"
  shows "byPriority configs sel"
  by (simp add: byPriority_def applyConfigurationPriority_def Let_def assms spreadKey3)

text \<open>
  Claim C1, as amended. The merge of the three normalised fragments is a union per
  sub-key for each of \<open>features\<close>, \<open>database\<close>, \<open>cache\<close> and \<open>authentication\<close>: every
  sub-key of the merged object has the value of the highest-priority fragment (command
  line, then configuration file, then interactive answers) that defines it, and the
  sub-keys a higher-priority fragment leaves undefined keep the value of a lower one.
  \<open>mergeConfigurations\<close> returns these merged objects: \<open>database\<close>, \<open>cache\<close> and
  \<open>authentication\<close> as they are, the features over the default flags.
\<close>

theorem nested_merge_per_subkey:
  "byPriority configs (\<lambda>p. subKey (p_features p) (feature k)) \<and>
   byPriority configs (\<lambda>p. subKey (p_database p) (required db_type)) \<and>
   byPriority configs (\<lambda>p. subKey (p_database p) (required db_host)) \<and>
   byPriority configs (\<lambda>p. subKey (p_database p) (required db_port)) \<and>
   byPriority configs (\<lambda>p. subKey (p_database p) (required db_database)) \<and>
   byPriority configs (\<lambda>p. subKey (p_database p) db_username) \<and>
   byPriority configs (\<lambda>p. subKey (p_database p) db_password) \<and>
   byPriority configs (\<lambda>p. subKey (p_cache p) (required cache_type)) \<and>
   byPriority configs (\<lambda>p. subKey (p_cache p) (required cache_host)) \<and>
   byPriority configs (\<lambda>p. subKey (p_cache p) (required cache_port)) \<and>
   byPriority configs (\<lambda>p. subKey (p_cache p) cache_password) \<and>
   byPriority configs (\<lambda>p. subKey (p_cache p) cache_database) \<and>
   byPriority configs (\<lambda>p. subKey (p_authentication p) (required auth_type)) \<and>
   byPriority configs (\<lambda>p. subKey (p_authentication p) auth_secret) \<and>
   byPriority configs (\<lambda>p. subKey (p_authentication p) auth_expiresIn) \<and>
   (normalizeSources env opts ans = Inr configs \<longrightarrow>
      mergeConfigurations env n opts ans =
        Inr (finalConfig n (applyConfigurationPriority configs))) \<and>
   features (finalConfig n (applyConfigurationPriority configs)) k =
     (case subKey (p_features (applyConfigurationPriority configs)) (feature k) of
        Some b \<Rightarrow> Some b
      | None \<Rightarrow> defaultFeatures k) \<and>
   database (finalConfig n (applyConfigurationPriority configs)) =
     p_database (applyConfigurationPriority configs) \<and>
   cache (finalConfig n (applyConfigurationPriority configs)) =
     p_cache (applyConfigurationPriority configs) \<and>
   authentication (finalConfig n (applyConfigurationPriority configs)) =
     p_authentication (applyConfigurationPriority configs)"
proof -
  have a: "normalizeSources env opts ans = Inr configs \<longrightarrow>
      mergeConfigurations env n opts ans =
        Inr (finalConfig n (applyConfigurationPriority configs))"
    by (simp add: mergeConfigurations_def)
  have b: "features (finalConfig n (applyConfigurationPriority configs)) k =
     (case subKey (p_features (applyConfigurationPriority configs)) (feature k) of
        Some b \<Rightarrow> Some b
      | None \<Rightarrow> defaultFeatures k)"
    by (simp add: finalConfig_def subKey_def feature_def map_add_def split: option.splits)
  have c: "database (finalConfig n (applyConfigurationPriority configs)) =
     p_database (applyConfigurationPriority configs) \<and>
   cache (finalConfig n (applyConfigurationPriority configs)) =
     p_cache (applyConfigurationPriority configs) \<and>
   authentication (finalConfig n (applyConfigurationPriority configs)) =
     p_authentication (applyConfigurationPriority configs)"
    by (simp add: finalConfig_def)
  show ?thesis
    by (intro conjI byPriorityI a b c [THEN conjunct1] c [THEN conjunct2, THEN conjunct1]
        c [THEN conjunct2, THEN conjunct2])
       (simp_all add: subKey_mergeConfig)
qed

lemma sample_sources:
  "normalizeSources sampleEnv sampleOptions (Some sampleAnswers) =
     Inr \<lparr>commandLine = convertCommandLineOptions sampleOptions,
          configFile = convertConfigFileFormat sampleFile,
          interactive = convertInteractiveAnswers sampleAnswers\<rparr>"
proof -
  have "toLowerCase ''.json'' = ''.json''" by code_simp
  then show ?thesis
    by (simp add: normalizeSources_def sampleOptions_def loadConfigFile_def sampleEnv_def)
qed

lemma sample_result:
  "mergeConfigurations sampleEnv ''shop'' sampleOptions (Some sampleAnswers) =
     Inr (finalConfig ''shop'' (applyConfigurationPriority
       \<lparr>commandLine = convertCommandLineOptions sampleOptions,
        configFile = convertConfigFileFormat sampleFile,
        interactive = convertInteractiveAnswers sampleAnswers\<rparr>))"
  by (simp add: mergeConfigurations_def sample_sources)

theorem nested_merge_per_subkey_witness:
  "subKey (p_features (applyConfigurationPriority exampleNested)) (feature redis) = Some True \<and>
   subKey (p_features (applyConfigurationPriority exampleNested)) (feature cors) = Some False \<and>
   normalizeSources sampleEnv sampleOptions (Some sampleAnswers) = Inr sampleSources \<and>
   mergeConfigurations sampleEnv ''shop'' sampleOptions (Some sampleAnswers) =
     Inr (finalConfig ''shop'' (applyConfigurationPriority sampleSources)) \<and>
   subKey (p_database (configFile sampleSources)) (required db_type) = Some ''mysql'' \<and>
   subKey (p_database (applyConfigurationPriority sampleSources)) (required db_type) =
     Some ''mysql''"
proof -
  have h: "normalizeSources sampleEnv sampleOptions (Some sampleAnswers) = Inr sampleSources"
    by (simp add: sample_sources sampleSources_def)
  have f: "subKey (p_database (commandLine sampleSources)) (required db_type) = None"
    "subKey (p_database (configFile sampleSources)) (required db_type) = Some ''mysql''"
    by (simp_all add: sampleSources_def convertCommandLineOptions_def convertConfigFileFormat_def
        sampleFile_def sampleFileDatabase_def required_def orString_def)
  have e: "subKey (p_features (commandLine exampleNested)) (feature redis) = Some True"
    "subKey (p_features (commandLine exampleNested)) (feature cors) = None"
    "subKey (p_features (configFile exampleNested)) (feature cors) = Some False"
    by (simp_all add: exampleNested_def feature_def)
  from nested_merge_per_subkey [of exampleNested redis sampleEnv sampleOptions
      "Some sampleAnswers" "''shop''"]
    nested_merge_per_subkey [of exampleNested cors sampleEnv sampleOptions
      "Some sampleAnswers" "''shop''"]
    nested_merge_per_subkey [of sampleSources cors sampleEnv sampleOptions
      "Some sampleAnswers" "''shop''"]
    h f e
  show ?thesis by (simp add: byPriority_def)
qed

text \<open>
  In \<open>mergeConfigurations\<close> the fragment of the configuration file is the normalised one,
  in which \<open>convertConfigFileFormat\<close> has given every sub-key a value. The file below
  sets \<open>features.cors\<close> and \<open>database.port\<close> only, the interactive answers set
  \<open>features.logging = false\<close> and \<open>database.type = postgresql\<close>; the result has
  \<open>features.logging = true\<close> and \<open>database.type = mysql\<close>.
\<close>

theorem nested_merge_counterexample:
  "cf_features sampleFile = Some [cors \<mapsto> False] \<and>
   pa_features sampleAnswers logging = Some False \<and>
   \<not> isl (mergeConfigurations sampleEnv ''shop'' sampleOptions (Some sampleAnswers)) \<and>
   features (projr (mergeConfigurations sampleEnv ''shop'' sampleOptions (Some sampleAnswers)))
     logging = Some True \<and>
   cfd_type sampleFileDatabase = None \<and>
   map_option db_type (pa_database sampleAnswers) = Some ''postgresql'' \<and>
   map_option db_type
     (database (projr (mergeConfigurations sampleEnv ''shop'' sampleOptions (Some sampleAnswers))))
     = Some ''mysql''"
  unfolding sample_result
  by (simp add: finalConfig_def applyConfigurationPriority_def Let_def
      mergeConfig_fields convertCommandLineOptions_def convertConfigFileFormat_def
      convertInteractiveAnswers_def sampleFile_def sampleFileDatabase_def sampleAnswers_def
      sampleOptions_def spreadFeatures_def spreadDatabase_def defaultFeatures_def
      truthyString_def orString_def orNumber_def)

section \<open>Properties of the normalisation\<close>


lemma convertCommandLineOptions_nested:
  "p_name (convertCommandLineOptions opts) = None"
  "p_features (convertCommandLineOptions opts) = None"
  "p_database (convertCommandLineOptions opts) = None"
  "p_cache (convertCommandLineOptions opts) = None"
  "p_authentication (convertCommandLineOptions opts) = None"
  by (simp_all add: convertCommandLineOptions_def)

lemma mergeConfigurations_cases:
  "normalizeSources env opts ans = Inr srcs \<Longrightarrow>
     mergeConfigurations env n opts ans = Inr (finalConfig n (applyConfigurationPriority srcs))"
  "normalizeSources env opts ans = Inl e \<Longrightarrow> mergeConfigurations env n opts ans = Inl e"
  by (simp_all add: mergeConfigurations_def)

lemma normalizeSources_commandLine:
  "normalizeSources env opts ans = Inr srcs \<Longrightarrow> commandLine srcs = convertCommandLineOptions opts"
  by (auto simp: normalizeSources_def split: sum.splits)


lemma orString_simps [simp]:
  "orString None d = d" "orString (Some []) d = d" "v \<noteq> [] \<Longrightarrow> orString (Some v) d = v"
  by (simp_all add: orString_def)

lemma orNumber_simps [simp]:
  "orNumber None d = d" "orNumber (Some (Num 0)) d = d" "orNumber (Some NaN) d = d"
  "v \<noteq> 0 \<Longrightarrow> orNumber (Some (Num v)) d = Num v"
  by (simp_all add: orNumber_def)



section \<open>Properties of mergeConfigurations\<close>

text \<open>
  Claim C4. \<open>mergeConfigurations\<close> returns \<open>finalConfig\<close> of the project name and the
  merged configuration whenever the sources load. In it every field the merge left
  undefined has its default: \<open>template = basic\<close>, \<open>packageManager = pnpm\<close>,
  \<open>typescript = true\<close>, and for the features \<open>logging\<close>, \<open>cors\<close>, \<open>helmet\<close> true and
  \<open>rateLimit\<close>, \<open>swagger\<close>, \<open>redis\<close> false; a feature flag the merge defines keeps the
  merged value, each flag on its own.
\<close>

theorem final_defaults:
  "(normalizeSources env opts ans = Inr srcs \<longrightarrow>
      mergeConfigurations env n opts ans =
        Inr (finalConfig n (applyConfigurationPriority srcs))) \<and>
   name (finalConfig n m) = n \<and>
   (p_template m = None \<longrightarrow> template (finalConfig n m) = ''basic'') \<and>
   (p_packageManager m = None \<longrightarrow> packageManager (finalConfig n m) = ''pnpm'') \<and>
   (p_typescript m = None \<longrightarrow> typescript (finalConfig n m) = True) \<and>
   (subKey (p_features m) (feature k) = None \<longrightarrow>
      features (finalConfig n m) k = Some (k \<in> {logging, cors, helmet})) \<and>
   (\<forall>b. subKey (p_features m) (feature k) = Some b \<longrightarrow> features (finalConfig n m) k = Some b)"
proof -
  have a: "normalizeSources env opts ans = Inr srcs \<longrightarrow>
      mergeConfigurations env n opts ans =
        Inr (finalConfig n (applyConfigurationPriority srcs))"
    by (simp add: mergeConfigurations_cases)
  have b: "name (finalConfig n m) = n \<and>
   (p_template m = None \<longrightarrow> template (finalConfig n m) = ''basic'') \<and>
   (p_packageManager m = None \<longrightarrow> packageManager (finalConfig n m) = ''pnpm'') \<and>
   (p_typescript m = None \<longrightarrow> typescript (finalConfig n m) = True)"
    by (simp add: finalConfig_def)
  have c: "(subKey (p_features m) (feature k) = None \<longrightarrow>
      features (finalConfig n m) k = Some (k \<in> {logging, cors, helmet})) \<and>
   (\<forall>b. subKey (p_features m) (feature k) = Some b \<longrightarrow> features (finalConfig n m) k = Some b)"
    by (cases k)
       (auto simp: finalConfig_def feature_def defaultFeatures_def map_add_def subKey_def
          split: option.splits)
  from a b c show ?thesis by blast
qed

lemma bare_sources: "normalizeSources env bareOptions None = Inr bareSources"
  by (simp add: normalizeSources_def bareOptions_def bareSources_def
      convertCommandLineOptions_def truthyString_def emptyConfig_def)

lemma bare_merged: "applyConfigurationPriority bareSources = emptyConfig"
  by (rule PartialProjectConfiguration.equality)
     (simp_all add: applyConfigurationPriority_def Let_def mergeConfig_fields bareSources_def)

theorem final_defaults_witness:
  "normalizeSources sampleEnv bareOptions None = Inr bareSources \<and>
   mergeConfigurations sampleEnv ''shop'' bareOptions None =
     Inr (finalConfig ''shop'' emptyConfig) \<and>
   name (finalConfig ''shop'' emptyConfig) = ''shop'' \<and>
   template (finalConfig ''shop'' emptyConfig) = ''basic'' \<and>
   packageManager (finalConfig ''shop'' emptyConfig) = ''pnpm'' \<and>
   typescript (finalConfig ''shop'' emptyConfig) = True \<and>
   features (finalConfig ''shop'' emptyConfig) logging = Some True \<and>
   features (finalConfig ''shop'' emptyConfig) cors = Some True \<and>
   features (finalConfig ''shop'' emptyConfig) helmet = Some True \<and>
   features (finalConfig ''shop'' emptyConfig) rateLimit = Some False \<and>
   features (finalConfig ''shop'' emptyConfig) swagger = Some False \<and>
   features (finalConfig ''shop'' emptyConfig) redis = Some False \<and>
   subKey (p_features (applyConfigurationPriority sampleSources)) (feature logging) = Some True \<and>
   subKey (p_features (applyConfigurationPriority sampleSources)) (feature cors) = Some False \<and>
   features (finalConfig ''shop'' (applyConfigurationPriority sampleSources)) cors = Some False"
proof -
  have h: "normalizeSources sampleEnv bareOptions None = Inr bareSources"
    by (rule bare_sources)
  have e: "subKey (p_features emptyConfig) (feature k) = None" for k
    by simp
  have s: "subKey (p_features (applyConfigurationPriority sampleSources)) (feature logging) = Some True"
    "subKey (p_features (applyConfigurationPriority sampleSources)) (feature cors) = Some False"
    by (simp_all add: applyConfigurationPriority_def Let_def mergeConfig_fields sampleSources_def
      convertCommandLineOptions_def convertConfigFileFormat_def convertInteractiveAnswers_def
      sampleFile_def sampleAnswers_def spreadFeatures_def defaultFeatures_def feature_def)
  from final_defaults [of sampleEnv bareOptions None bareSources "''shop''" emptyConfig logging]
    final_defaults [of sampleEnv bareOptions None bareSources "''shop''" emptyConfig cors]
    final_defaults [of sampleEnv bareOptions None bareSources "''shop''" emptyConfig helmet]
    final_defaults [of sampleEnv bareOptions None bareSources "''shop''" emptyConfig rateLimit]
    final_defaults [of sampleEnv bareOptions None bareSources "''shop''" emptyConfig swagger]
    final_defaults [of sampleEnv bareOptions None bareSources "''shop''" emptyConfig redis]
    final_defaults [of sampleEnv bareOptions None bareSources "''shop''"
      "applyConfigurationPriority sampleSources" cors]
    h e s bare_merged
  show ?thesis by auto
qed

lemma normalizeSources_config:
  assumes "cl_config opts' = cl_config opts"
  shows "map_sum id configFile (normalizeSources env opts' ans) =
           map_sum id configFile (normalizeSources env opts ans)"
    and "map_sum id interactive (normalizeSources env opts' ans) =
           map_sum id interactive (normalizeSources env opts ans)"
  using assms by (auto simp: normalizeSources_def split: sum.splits option.splits)

lemma applyConfigurationPriority_nested:
  assumes "p_features (commandLine configs) = None" "p_database (commandLine configs) = None"
    "p_cache (commandLine configs) = None" "p_authentication (commandLine configs) = None"
  shows "p_features (applyConfigurationPriority configs) =
           p_features (mergeConfig (mergeConfig emptyConfig (interactive configs)) (configFile configs))"
    and "p_database (applyConfigurationPriority configs) =
           p_database (mergeConfig (mergeConfig emptyConfig (interactive configs)) (configFile configs))"
    and "p_cache (applyConfigurationPriority configs) =
           p_cache (mergeConfig (mergeConfig emptyConfig (interactive configs)) (configFile configs))"
    and "p_authentication (applyConfigurationPriority configs) =
           p_authentication (mergeConfig (mergeConfig emptyConfig (interactive configs)) (configFile configs))"
  using assms by (simp_all add: applyConfigurationPriority_def Let_def mergeConfig_fields)

lemma nestedFields_finalConfig:
  "nestedFields (finalConfig n (applyConfigurationPriority configs)) =
     (defaultFeatures ++
        (case p_features (applyConfigurationPriority configs) of None \<Rightarrow> Map.empty | Some f \<Rightarrow> f),
      p_database (applyConfigurationPriority configs),
      p_cache (applyConfigurationPriority configs),
      p_authentication (applyConfigurationPriority configs))"
  by (simp add: nestedFields_def finalConfig_def)

lemma mergeConfigurations_nested:
  assumes "cl_config opts' = cl_config opts"
  shows "map_sum id nestedFields (mergeConfigurations env n' opts' ans) =
         map_sum id nestedFields (mergeConfigurations env n opts ans)"
proof (cases "normalizeSources env opts ans")
  case (Inl e)
  with normalizeSources_config(1) [OF assms, of env ans]
  have "normalizeSources env opts' ans = Inl e"
    by (cases "normalizeSources env opts' ans") auto
  with Inl show ?thesis by (simp add: mergeConfigurations_def)
next
  case (Inr srcs)
  with normalizeSources_config [OF assms, of env ans]
  obtain srcs' where s': "normalizeSources env opts' ans = Inr srcs'"
    and f: "configFile srcs' = configFile srcs" and i: "interactive srcs' = interactive srcs"
    by (cases "normalizeSources env opts' ans") auto
  have c: "commandLine srcs = convertCommandLineOptions opts"
    "commandLine srcs' = convertCommandLineOptions opts'"
    using Inr s' by (auto dest: normalizeSources_commandLine)
  show ?thesis
    by (simp add: mergeConfigurations_cases(1) [OF Inr] mergeConfigurations_cases(1) [OF s']
        nestedFields_finalConfig applyConfigurationPriority_nested c
        convertCommandLineOptions_nested f i)
qed

text \<open>
  Claim C10. The fragment made from the command-line options never defines \<open>name\<close>,
  \<open>features\<close>, \<open>database\<close>, \<open>cache\<close> or \<open>authentication\<close>. So two calls of
  \<open>mergeConfigurations\<close> whose options agree on \<open>config\<close> return the same four nested
  fields (or fail alike), whatever the other options are; and \<open>skipInstall\<close>, \<open>git\<close> and
  \<open>force\<close> change nothing at all in the result.
\<close>

theorem command_line_fragment_frame:
  "p_name (convertCommandLineOptions opts) = None \<and>
   p_features (convertCommandLineOptions opts) = None \<and>
   p_database (convertCommandLineOptions opts) = None \<and>
   p_cache (convertCommandLineOptions opts) = None \<and>
   p_authentication (convertCommandLineOptions opts) = None \<and>
   (cl_config opts' = cl_config opts \<longrightarrow>
      map_sum id nestedFields (mergeConfigurations env n opts' ans) =
      map_sum id nestedFields (mergeConfigurations env n opts ans)) \<and>
   mergeConfigurations env n (opts\<lparr>cl_skipInstall := s, cl_git := g, cl_force := f\<rparr>) ans =
     mergeConfigurations env n opts ans"
proof -
  have "convertCommandLineOptions (opts\<lparr>cl_skipInstall := s, cl_git := g, cl_force := f\<rparr>) =
        convertCommandLineOptions opts"
    by (simp add: convertCommandLineOptions_def)
  then have "normalizeSources env (opts\<lparr>cl_skipInstall := s, cl_git := g, cl_force := f\<rparr>) ans =
        normalizeSources env opts ans"
    by (simp add: normalizeSources_def split: sum.splits option.splits)
  then have "mergeConfigurations env n (opts\<lparr>cl_skipInstall := s, cl_git := g, cl_force := f\<rparr>) ans =
     mergeConfigurations env n opts ans"
    by (simp add: mergeConfigurations_def)
  then show ?thesis
    by (simp add: convertCommandLineOptions_nested mergeConfigurations_nested)
qed

theorem command_line_fragment_frame_witness:
  "cl_config busyOptions = cl_config sampleOptions \<and>
   p_features (convertCommandLineOptions busyOptions) = None \<and>
   p_database (convertCommandLineOptions busyOptions) = None \<and>
   p_cache (convertCommandLineOptions busyOptions) = None \<and>
   p_authentication (convertCommandLineOptions busyOptions) = None \<and>
   map_sum id nestedFields
     (mergeConfigurations sampleEnv ''shop'' busyOptions (Some sampleAnswers)) =
   map_sum id nestedFields
     (mergeConfigurations sampleEnv ''shop'' sampleOptions (Some sampleAnswers))"
proof -
  have h: "cl_config busyOptions = cl_config sampleOptions"
    by (simp add: busyOptions_def sampleOptions_def)
  from command_line_fragment_frame [of busyOptions busyOptions sampleEnv "''shop''"
      "Some sampleAnswers" "Some True" "Some False" "Some True"]
    command_line_fragment_frame [of sampleOptions busyOptions sampleEnv "''shop''"
      "Some sampleAnswers" None None None] h
  show ?thesis by simp
qed

section \<open>Properties of validateConfiguration\<close>

lemma trim_Nil [simp]: "trim [] = []"
  by (simp add: trim_def)

lemma blank_name: "(s = [] \<or> trim s = []) = (trim s = [])"
  by auto

text \<open>The checks are independent and all collected: the error list is the concatenation
  of what each rule pushes, and the result is valid exactly when the list is empty.\<close>

lemma validateConfiguration_errors:
  "cv_errors (validateConfiguration c) =
     pushIf (trim (name c) = []) EmptyProjectName @
     pushIf (template c \<notin> {''basic'', ''api'', ''fullstack''}) (InvalidTemplate (template c)) @
     pushIf (packageManager c \<notin> {''npm'', ''yarn'', ''pnpm''})
       (InvalidPackageManager (packageManager c)) @
     (case database c of
        None \<Rightarrow> []
      | Some db \<Rightarrow>
          pushIf (db_type db \<notin> {''mysql'', ''postgresql'', ''mongodb''})
            (InvalidDatabaseType (db_type db)) @
          pushIf (jsLess (db_port db) (Num 1) \<or> jsLess (Num 65535) (db_port db))
            (InvalidDatabasePort (db_port db))) @
     (case cache c of
        None \<Rightarrow> []
      | Some ca \<Rightarrow>
          pushIf (cache_type ca \<noteq> ''redis'') (InvalidCacheType (cache_type ca)) @
          pushIf (jsLess (cache_port ca) (Num 1) \<or> jsLess (Num 65535) (cache_port ca))
            (InvalidCachePort (cache_port ca))) @
     (case authentication c of
        None \<Rightarrow> []
      | Some a \<Rightarrow> pushIf (auth_type a \<notin> {''jwt'', ''session''}) (InvalidAuthType (auth_type a)))"
  unfolding validateConfiguration_def Let_def blank_name
  by (simp add: validTemplates_def validPackageManagers_def validDatabaseTypes_def
      validAuthTypes_def split: option.splits)

lemma validateConfiguration_valid:
  "cv_valid (validateConfiguration c) = (cv_errors (validateConfiguration c) = [])"
  by (simp add: validateConfiguration_def Let_def)

text \<open>For a finite port the two comparisons of the source are the range check.\<close>

lemma port_check_finite:
  "(jsLess (Num q) (Num 1) \<or> jsLess (Num 65535) (Num q)) = (\<not> (1 \<le> q \<and> q \<le> 65535))"
  by auto

text \<open>
  Claim C5. The claim asks that a port outside 1 to 65535 be reported. The code tests
  \<open>port < 1 || port > 65535\<close>; both comparisons are false for \<open>NaN\<close>, so a configuration
  whose database port and cache port are \<open>NaN\<close> gets no error and is valid, although
  \<open>NaN\<close> is no port in the range. The port 99999 of the specification's example is
  reported, with the port in the error, and the result is not valid.
\<close>

theorem validateConfiguration_accepts_NaN_port:
  "map_option db_port (database nanPortConfig) = Some NaN \<and>
   map_option cache_port (cache nanPortConfig) = Some NaN \<and>
   validateConfiguration nanPortConfig = \<lparr>cv_valid = True, cv_errors = []\<rparr> \<and>
   map_option db_port (database badConfig) = Some (Num 99999) \<and>
   validateConfiguration badConfig =
     \<lparr>cv_valid = False,
      cv_errors = [InvalidTemplate ''spa'', InvalidDatabasePort (Num 99999),
                   InvalidCacheType ''memcached'']\<rparr>"
proof -
  have t: "trim ''shop'' = ''shop''" by code_simp
  have n: "validateConfiguration nanPortConfig = \<lparr>cv_valid = True, cv_errors = []\<rparr>"
    by (simp add: validateConfiguration_def nanPortConfig_def t validTemplates_def
        validPackageManagers_def validDatabaseTypes_def)
  have b: "validateConfiguration badConfig =
     \<lparr>cv_valid = False,
      cv_errors = [InvalidTemplate ''spa'', InvalidDatabasePort (Num 99999),
                   InvalidCacheType ''memcached'']\<rparr>"
    by (simp add: validateConfiguration_def badConfig_def t validTemplates_def
        validPackageManagers_def validDatabaseTypes_def)
  show ?thesis
    by (simp add: n b) (simp add: nanPortConfig_def badConfig_def)
qed

section \<open>Determinism of the merge\<close>

lemma mergeKey_commute: "mergeKey s k (mergeKey s k' t) = mergeKey s k' (mergeKey s k t)"
  by (rule PartialProjectConfiguration.equality)
     (simp_all add: mergeKey_fields del: mergeKey.simps split: option.splits)

lemma mergeKey_absent: "\<not> hasKey s k \<Longrightarrow> mergeKey s k t = t"
  by (cases k) (auto simp: hasKey_def)

lemma fold_mergeKey_filter:
  "fold (mergeKey s) (filter (hasKey s) ks) t = fold (mergeKey s) ks t"
  by (induction ks arbitrary: t) (auto simp: mergeKey_absent)

lemma configKeys_all: "distinct configKeys \<and> set configKeys = UNIV"
proof -
  have "k \<in> set configKeys" for k by (cases k) (simp_all add: configKeys_def)
  then show ?thesis by (auto simp: configKeys_def)
qed

lemma mergeConfigKeys_any_order:
  assumes "distinct ks" and "\<forall>k. hasKey s k \<longrightarrow> k \<in> set ks"
  shows "mergeConfigKeys ks t s = mergeConfig t s"
proof -
  have "set (filter (hasKey s) ks) = set (filter (hasKey s) configKeys)"
    using assms(2) configKeys_all by auto
  moreover have "distinct (filter (hasKey s) ks)" "distinct (filter (hasKey s) configKeys)"
    using assms(1) configKeys_all by auto
  ultimately have m: "mset (filter (hasKey s) ks) = mset (filter (hasKey s) configKeys)"
    using set_eq_iff_mset_eq_distinct by blast
  have "fold (mergeKey s) (filter (hasKey s) ks) = fold (mergeKey s) (filter (hasKey s) configKeys)"
  proof (rule fold_multiset_equiv)
    show "mset (filter (hasKey s) ks) = mset (filter (hasKey s) configKeys)" by (rule m)
  next
    fix x y
    show "mergeKey s x \<circ> mergeKey s y = mergeKey s y \<circ> mergeKey s x"
      by (simp add: fun_eq_iff mergeKey_commute del: mergeKey.simps)
  qed
  then show ?thesis
    by (metis fold_mergeKey_filter mergeConfigKeys_def mergeConfig_def)
qed

lemma loadConfigFile_same:
  assumes "pathExists env' p = pathExists env p" "readFile env' p = readFile env p"
    "extname env' p = extname env p"
    "case readFile env p of Inl t \<Rightarrow> True
     | Inr c \<Rightarrow> JSON_parse env' c = JSON_parse env c \<and> yaml_load env' c = yaml_load env c"
  shows "loadConfigFile env' p = loadConfigFile env p"
  using assms by (cases "readFile env p") (simp_all add: loadConfigFile_def Let_def)

lemma normalizeSources_same:
  assumes "sameConfigFile env env' opts"
  shows "normalizeSources env' opts ans = normalizeSources env opts ans"
proof (cases "cl_config opts")
  case None
  then show ?thesis by (simp add: normalizeSources_def)
next
  case (Some p)
  show ?thesis
  proof (cases "p = []")
    case True
    with Some show ?thesis by (simp add: normalizeSources_def)
  next
    case False
    with Some assms have "loadConfigFile env' p = loadConfigFile env p"
      by (intro loadConfigFile_same) (simp_all add: sameConfigFile_def)
    with Some False show ?thesis by (simp add: normalizeSources_def)
  qed
qed

text \<open>
  Claim C8. \<open>mergeConfigurations\<close> is a function of the project name, the options, the
  answers and the configuration file: two calls with these inputs equal return equal
  results, whatever else the two environments hold. The only order the code takes from
  its data, the order in which \<open>for ... in\<close> visits the keys of a source, does not matter
  either: whatever the order of the keys of each of the three sources, merging
  interactive answers, then configuration file, then command line gives the result of
  \<open>applyConfigurationPriority\<close>.
\<close>

theorem mergeConfigurations_deterministic:
  "(sameConfigFile env env' opts \<longrightarrow>
      mergeConfigurations env' n opts ans = mergeConfigurations env n opts ans) \<and>
   (distinct ki \<and> set (ownKeys (interactive configs)) \<subseteq> set ki \<and>
    distinct kf \<and> set (ownKeys (configFile configs)) \<subseteq> set kf \<and>
    distinct kc \<and> set (ownKeys (commandLine configs)) \<subseteq> set kc \<longrightarrow>
      mergeConfigKeys kc
        (mergeConfigKeys kf (mergeConfigKeys ki emptyConfig (interactive configs))
           (configFile configs))
        (commandLine configs) = applyConfigurationPriority configs)"
proof -
  have "mergeConfigKeys ks t s = mergeConfig t s"
    if "distinct ks" and "set (ownKeys s) \<subseteq> set ks" for ks t s
    using that configKeys_all by (intro mergeConfigKeys_any_order) (auto simp: ownKeys_def)
  then show ?thesis
    by (simp add: applyConfigurationPriority_def Let_def mergeConfigurations_def
        normalizeSources_same)
qed

theorem mergeConfigurations_deterministic_witness:
  "sameConfigFile sampleEnv otherEnv sampleOptions \<and>
   mergeConfigurations otherEnv ''shop'' sampleOptions (Some sampleAnswers) =
     mergeConfigurations sampleEnv ''shop'' sampleOptions (Some sampleAnswers) \<and>
   ownKeys (interactive sampleSources) =
     [Key_template, Key_features, Key_database, Key_packageManager, Key_typescript] \<and>
   ownKeys (configFile sampleSources) = [Key_features, Key_database] \<and>
   ownKeys (commandLine sampleSources) = [] \<and>
   mergeConfigKeys []
     (mergeConfigKeys [Key_database, Key_features]
        (mergeConfigKeys (rev configKeys) emptyConfig (interactive sampleSources))
        (configFile sampleSources))
     (commandLine sampleSources) = applyConfigurationPriority sampleSources"
proof -
  have s: "sameConfigFile sampleEnv otherEnv sampleOptions"
    by (simp add: sameConfigFile_def sampleEnv_def otherEnv_def sampleOptions_def)
  have i: "ownKeys (interactive sampleSources) =
     [Key_template, Key_features, Key_database, Key_packageManager, Key_typescript]"
    by (simp add: ownKeys_def configKeys_def hasKey_def sampleSources_def
        convertInteractiveAnswers_def sampleAnswers_def)
  have f: "ownKeys (configFile sampleSources) = [Key_features, Key_database]"
    by (simp add: ownKeys_def configKeys_def hasKey_def sampleSources_def
        convertConfigFileFormat_def sampleFile_def truthyString_def)
  have c: "ownKeys (commandLine sampleSources) = []"
    by (simp add: ownKeys_def configKeys_def hasKey_def sampleSources_def
        convertCommandLineOptions_def sampleOptions_def truthyString_def)
  have d: "distinct (rev configKeys)" "set (rev configKeys) = UNIV"
    using configKeys_all by simp_all
  from mergeConfigurations_deterministic [of sampleEnv otherEnv sampleOptions "''shop''"
      "Some sampleAnswers" "rev configKeys" sampleSources "[Key_database, Key_features]" "[]"]
    s i f c d
  show ?thesis by simp
qed

end
